theory Spec2Isabelle
  imports Main
begin

section \<open>AudioStreamFormat (sdk/Audio/AudioStreamFormat.ts)\<close>

text \<open>
  TypeScript's \<open>number\<close> is an IEEE double. The type of numbers and the three things the
  constructor does with numbers are parameters of the model: the product \<open>a * b\<close>,
  \<open>Math.max(a, b)\<close> and the number that an integer literal denotes. Every statement
  about the constructor then holds of whatever the platform computes, rounding included.
\<close>

record 'n NumberOps =
  number_times :: "'n \<Rightarrow> 'n \<Rightarrow> 'n"
  Math_max :: "'n \<Rightarrow> 'n \<Rightarrow> 'n"
  number_literal :: "int \<Rightarrow> 'n"

text \<open>The fields of \<open>AudioStreamFormatImpl\<close>.\<close>

record 'n AudioStreamFormatImpl =
  formatTag :: 'n
  channels :: 'n
  samplesPerSec :: 'n
  bitsPerSample :: 'n
  avgBytesPerSec :: 'n
  blockAlign :: 'n

text \<open>
  The constructor, field assignments in the order of the source. \<open>a * b * c\<close> is
  \<open>(a * b) * c\<close>.
\<close>

definition AudioStreamFormatImpl_new :: "'n NumberOps \<Rightarrow> 'n \<Rightarrow> 'n \<Rightarrow> 'n \<Rightarrow> 'n AudioStreamFormatImpl" where
  "AudioStreamFormatImpl_new ops samplesPerSec' bitsPerSample' channels' =
     \<lparr> formatTag = number_literal ops 1,
       channels = channels',
       samplesPerSec = samplesPerSec',
       bitsPerSample = bitsPerSample',
       avgBytesPerSec =
         number_times ops (number_times ops samplesPerSec' channels') bitsPerSample',
       blockAlign =
         number_times ops channels' (Math_max ops bitsPerSample' (number_literal ops 8)) \<rparr>"

text \<open>\<open>AudioStreamFormat.getWaveFormatPCM\<close> passes its three arguments to the constructor.\<close>

definition getWaveFormatPCM :: "'n NumberOps \<Rightarrow> 'n \<Rightarrow> 'n \<Rightarrow> 'n \<Rightarrow> 'n AudioStreamFormatImpl" where
  "getWaveFormatPCM ops samplesPerSecond bitsPerSample' channels' =
     AudioStreamFormatImpl_new ops samplesPerSecond bitsPerSample' channels'"

text \<open>
  \<open>getDefaultInputFormat\<close> calls the constructor without arguments, so the parameter
  defaults \<open>16000\<close>, \<open>16\<close>, \<open>1\<close> apply.
\<close>

definition getDefaultInputFormat :: "'n NumberOps \<Rightarrow> 'n AudioStreamFormatImpl" where
  "getDefaultInputFormat ops =
     AudioStreamFormatImpl_new ops (number_literal ops 16000) (number_literal ops 16)
       (number_literal ops 1)"

subsection \<open>Doubles that are integers\<close>

text \<open>
  An instance of the number operations for evaluation: the doubles whose value is an
  integer, below the overflow threshold \<open>2 ^ 1024\<close>. A double has 53 significant bits;
  the product of two doubles is the exact product rounded to the nearest double, a tie
  going to the even significand. \<open>excessBits m\<close> is the number of low bits of \<open>m\<close> that
  do not fit.
\<close>

function excessBits :: "int \<Rightarrow> nat" where
  "excessBits m = (if m < 2 ^ 53 then 0 else Suc (excessBits (m div 2)))"
  by pat_completeness auto
termination
  by (relation "measure nat") auto

declare excessBits.simps [simp del]

definition roundToDouble :: "int \<Rightarrow> int" where
  "roundToDouble x =
     (let m = \<bar>x\<bar>;
          e = excessBits m;
          q = m div 2 ^ e;
          r = m mod 2 ^ e;
          q' = (if 2 * r > 2 ^ e \<or> (2 * r = 2 ^ e \<and> odd q) then q + 1 else q)
      in sgn x * (q' * 2 ^ e))"

definition doubleOps :: "int NumberOps" where
  "doubleOps =
     \<lparr> number_times = (\<lambda>a b. roundToDouble (a * b)),
       Math_max = max,
       number_literal = (\<lambda>i. i) \<rparr>"


section \<open>Result model (types imported by SpeechRecognizer from ./Exports)\<close>

text \<open>
  Modelled from the spec: the declarations of \<open>ResultReason\<close>, \<open>CancellationReason\<close>,
  \<open>OutputFormat\<close>, \<open>SpeechRecognitionResult\<close> and the two event-args classes are not
  under src/. The members are those the recognizer's code names
  (\<open>ResultReason.Canceled\<close>, \<open>ResultReason.RecognizedSpeech\<close>, \<open>CancellationReason.Error\<close>,
  \<open>OutputFormat.Simple\<close>, \<open>OutputFormat.Detailed\<close>) together with the spec's \<open>NoMatch\<close> and
  \<open>EndOfStream\<close>. A field that was never assigned (JavaScript \<open>undefined\<close>) is \<open>None\<close>.
\<close>

datatype ResultReason = NoMatch | Canceled | RecognizedSpeech

datatype CancellationReason = Error | EndOfStream

datatype OutputFormat = Simple | Detailed

record SpeechRecognitionResult =
  reason :: "ResultReason option"
  resultText :: "string option"
  offset :: "int option"
  duration :: "int option"
  json :: "string option"
  errorDetails :: "string option"

text \<open>\<open>new SpeechRecognitionResult()\<close>: no field assigned yet.\<close>

definition SpeechRecognitionResult_new :: SpeechRecognitionResult where
  "SpeechRecognitionResult_new =
     \<lparr> reason = None, resultText = None, offset = None, duration = None,
       json = None, errorDetails = None \<rparr>"

record SpeechRecognitionEventArgs =
  sessionId :: "string option"
  result :: "SpeechRecognitionResult option"

definition SpeechRecognitionEventArgs_new :: SpeechRecognitionEventArgs where
  "SpeechRecognitionEventArgs_new = \<lparr> sessionId = None, result = None \<rparr>"

record SpeechRecognitionCanceledEventArgs =
  cancelSessionId :: "string option"
  cancelReason :: "CancellationReason option"
  cancelErrorDetails :: "string option"

definition SpeechRecognitionCanceledEventArgs_new :: SpeechRecognitionCanceledEventArgs where
  "SpeechRecognitionCanceledEventArgs_new =
     \<lparr> cancelSessionId = None, cancelReason = None, cancelErrorDetails = None \<rparr>"


section \<open>Raw events of the protocol engine (types imported from ../common.speech/Exports)\<close>

text \<open>
  Modelled from the spec: the payload interfaces are not under src/; the fields are
  those the recognizer reads, plus the \<open>Offset\<close> of a simple phrase, which the recognizer
  never reads. The status enums \<open>RecognitionStatus2\<close> and \<open>RecognitionCompletionStatus\<close>
  are kept abstract as the type parameters \<open>'rs\<close> and \<open>'cs\<close>.
\<close>

record 'rs ISimpleSpeechPhrase =
  simple_RecognitionStatus :: 'rs
  simple_DisplayText :: string
  simple_Offset :: int
  simple_Duration :: int

record IPhrase =
  Display :: string

record 'rs IDetailedSpeechPhrase =
  detailed_RecognitionStatus :: 'rs
  NBest :: "IPhrase list"
  detailed_Offset :: int
  detailed_Duration :: int

record ISpeechHypothesis =
  hyp_Text :: string
  hyp_Offset :: int
  hyp_Duration :: int

text \<open>
  \<open>event.Name\<close> selects the variant; an event with any other name falls through the
  \<open>switch\<close>. \<open>RecognitionEndedEvent\<close> carries \<open>Status\<close>, \<open>SessionId\<close> and \<open>Error\<close>; the
  three result events carry \<open>SessionId\<close> and \<open>Result\<close>.
\<close>

datatype ('rs, 'cs) SpeechRecognitionEvent =
    RecognitionEndedEvent 'cs string string
  | SpeechSimplePhraseEvent string "'rs ISimpleSpeechPhrase"
  | SpeechDetailedPhraseEvent string "'rs IDetailedSpeechPhrase"
  | SpeechHypothesisEvent string ISpeechHypothesis
  | OtherEvent string

datatype 'rs payload =
    SimplePayload "'rs ISimpleSpeechPhrase"
  | DetailedPayload "'rs IDetailedSpeechPhrase"
  | HypothesisPayload ISpeechHypothesis

datatype RecognitionMode = Interactive | Conversation

text \<open>Keys of the property collection that the recognizer uses.\<close>

datatype PropertyKey =
    SpeechServiceConnection_EndpointId
  | SpeechServiceAuthorization_Token
  | SpeechServiceConnection_RecoLanguage
  | OutputFormatPropertyName


section \<open>Exceptions, handlers and the trace of calls\<close>

text \<open>
  What a \<open>throw\<close> carries: the failure of \<open>Contracts.throwIfDisposed\<close>, the failures of
  \<open>Contracts.throwIfNull\<close> and \<open>Contracts.throwIfNullOrWhitespace\<close> with the parameter's
  name, the \<open>TypeError\<close> of a property read on \<open>undefined\<close>, or a value thrown by user
  code or a collaborator.
\<close>

datatype error =
    ObjectDisposed
  | NullArgument string
  | NullOrWhitespace string
  | TypeError
  | Thrown string

text \<open>
  A user-supplied function is modelled by what it does to its caller: \<open>None\<close> when it
  returns, \<open>Some e\<close> when it throws \<open>e\<close>. Handlers do not call back into the recognizer.
\<close>

type_synonym 'a handler = "'a \<Rightarrow> error option"

text \<open>Every call that leaves the recognizer is recorded with its argument.\<close>

datatype Invocation =
    CanceledCall SpeechRecognitionCanceledEventArgs
  | RecognizedCall SpeechRecognitionEventArgs
  | RecognizingCall SpeechRecognitionEventArgs
  | CbCall SpeechRecognitionResult
  | ErrCall error
  | NotifyCall
  | TurnOff nat
  | Dispose nat
  | Setup RecognitionMode nat
  | Start nat

text \<open>
  A computation is the trace of the calls it made and either the exception that left
  it (\<open>Inl\<close>) or its value (\<open>Inr\<close>).
\<close>

type_synonym 'a comp = "Invocation list \<times> (error + 'a)"

definition ret :: "'a \<Rightarrow> 'a comp" where
  "ret x = ([], Inr x)"

definition bind_comp :: "'a comp \<Rightarrow> ('a \<Rightarrow> 'b comp) \<Rightarrow> 'b comp" where
  "bind_comp m f =
     (case snd m of
        Inl e \<Rightarrow> (fst m, Inl e)
      | Inr v \<Rightarrow> (fst m @ fst (f v), snd (f v)))"

definition seq :: "unit comp \<Rightarrow> 'b comp \<Rightarrow> 'b comp" where
  "seq m n = bind_comp m (\<lambda>_. n)"

text \<open>\<open>try { m } catch (e) { h(e) }\<close>\<close>

definition try_catch :: "'a comp \<Rightarrow> (error \<Rightarrow> 'a comp) \<Rightarrow> 'a comp" where
  "try_catch m h =
     (case snd m of
        Inl e \<Rightarrow> (fst m @ fst (h e), snd (h e))
      | Inr v \<Rightarrow> m)"

text \<open>Calling a user function \<open>f\<close> with argument \<open>a\<close>; \<open>tag\<close> names the call in the trace.\<close>

definition invoke :: "('a \<Rightarrow> Invocation) \<Rightarrow> 'a handler \<Rightarrow> 'a \<Rightarrow> unit comp" where
  "invoke tag f a = ([tag a], case f a of None \<Rightarrow> Inr () | Some e \<Rightarrow> Inl e)"


section \<open>Collaborators of the recognizer that are not under src/\<close>

text \<open>
  The functions of this repository that \<open>SpeechRecognizer\<close> calls and whose code is not
  under src/ are parameters of the model: the two status translations of
  \<open>EnumTranslation\<close>, the member \<open>Success\<close> of \<open>RecognitionCompletionStatus\<close> and the
  enum's reverse mapping \<open>RecognitionCompletionStatus[status]\<close>, \<open>JSON.stringify\<close> on a
  payload, and whether \<open>implRecognizerSetup\<close> of the base class throws.
\<close>

record ('rs, 'cs) Externals =
  implTranslateRecognitionResult :: "'rs \<Rightarrow> ResultReason"
  implTranslateCancelResult :: "'rs \<Rightarrow> CancellationReason"
  completionSuccess :: 'cs
  completionStatusName :: "'cs \<Rightarrow> string"
  JSON_stringify :: "'rs payload \<Rightarrow> string"
  implRecognizerSetup_throws :: "RecognitionMode \<Rightarrow> (PropertyKey \<rightharpoonup> string) \<Rightarrow> error option"

text \<open>
  Modelled from the spec: \<open>Contracts.throwIfDisposed\<close>, \<open>Contracts.throwIfNull\<close> and
  \<open>Contracts.throwIfNullOrWhitespace\<close> are not under src/. The spec has a disposed
  instance fail with the disposed classification and a required argument fail on
  null or blank input; blank is taken as: every character is ASCII white space.
\<close>

definition throwIfDisposed :: "bool \<Rightarrow> error + unit" where
  "throwIfDisposed isDisposed = (if isDisposed then Inl ObjectDisposed else Inr ())"

definition isBlank :: "string \<Rightarrow> bool" where
  "isBlank s = list_all (\<lambda>c. c \<in> set [CHR '' '', CHR 0x09, CHR 0x0A, CHR 0x0B, CHR 0x0C, CHR 0x0D]) s"

definition throwIfNullOrWhitespace :: "string option \<Rightarrow> string \<Rightarrow> error + unit" where
  "throwIfNullOrWhitespace param name =
     (case param of
        None \<Rightarrow> Inl (NullOrWhitespace name)
      | Some s \<Rightarrow> if isBlank s then Inl (NullOrWhitespace name) else Inr ())"

text \<open>
  Modelled from the spec: \<open>PropertyCollection\<close> is not under src/; the spec calls it a
  backing configuration store read and written by the accessors. \<open>getProperty\<close> returns
  the stored value, or the default passed by the caller (\<open>None\<close> when there is none).
\<close>

definition getProperty :: "(PropertyKey \<rightharpoonup> string) \<Rightarrow> PropertyKey \<Rightarrow> string option \<Rightarrow> string option" where
  "getProperty props key def = (case props key of Some v \<Rightarrow> Some v | None \<Rightarrow> def)"

definition setProperty :: "(PropertyKey \<rightharpoonup> string) \<Rightarrow> PropertyKey \<Rightarrow> string option \<Rightarrow> (PropertyKey \<rightharpoonup> string)" where
  "setProperty props key v = props(key := v)"


section \<open>SpeechRecognizer (src/unnamed/part_000)\<close>

text \<open>
  The event sinks that \<open>recognizeOnceAsync\<close> and \<open>startContinuousRecognitionAsync\<close> pass
  to \<open>implRecognizerStart\<close> are closures; a closure is represented by what it captured:
  the one-shot sink captured \<open>cb\<close> and \<open>err\<close>, the continuous sink nothing.
\<close>

datatype Sink =
    OnceSink "SpeechRecognitionResult handler option" "error handler option"
  | ContinuousSink

text \<open>
  The fields of the class: \<open>disposedSpeechRecognizer\<close>, \<open>privProperties\<close>, the three public
  subscriber fields and \<open>reco\<close>, the session handle (\<open>None\<close> for \<open>undefined\<close>; a handle is
  the number of the session). The last two fields are the collaborator's side: how many
  sessions \<open>implRecognizerSetup\<close> has created, and the sink that \<open>implRecognizerStart\<close>
  was given for each session. Nothing under src/ ever removes a sink from a session.
\<close>

record SpeechRecognizer =
  disposedSpeechRecognizer :: bool
  privProperties :: "PropertyKey \<rightharpoonup> string"
  recognizing :: "SpeechRecognitionEventArgs handler option"
  recognized :: "SpeechRecognitionEventArgs handler option"
  canceled :: "SpeechRecognitionCanceledEventArgs handler option"
  reco :: "nat option"
  sessionsCreated :: nat
  registeredSinks :: "nat \<rightharpoonup> Sink"

subsection \<open>Constructor and property accessors\<close>

text \<open>
  The constructor: \<open>throwIfNull\<close> on the configuration, a copy of its properties, then
  \<open>throwIfNullOrWhitespace\<close> on the recognition language. The subscriber fields and
  \<open>reco\<close> start out \<open>undefined\<close>.
\<close>

definition SpeechRecognizer_new :: "(PropertyKey \<rightharpoonup> string) option \<Rightarrow> error + SpeechRecognizer" where
  "SpeechRecognizer_new speechConfig =
     (case speechConfig of
        None \<Rightarrow> Inl (NullArgument ''speechConfig'')
      | Some props \<Rightarrow>
          (case throwIfNullOrWhitespace (getProperty props SpeechServiceConnection_RecoLanguage None)
                  ''SpeechServiceConnection_RecoLanguage'' of
             Inl e \<Rightarrow> Inl e
           | Inr _ \<Rightarrow>
               Inr \<lparr> disposedSpeechRecognizer = False, privProperties = props,
                     recognizing = None, recognized = None, canceled = None,
                     reco = None, sessionsCreated = 0, registeredSinks = Map.empty \<rparr>))"

definition get_endpointId :: "SpeechRecognizer \<Rightarrow> error + string option" where
  "get_endpointId this =
     (case throwIfDisposed (disposedSpeechRecognizer this) of
        Inl e \<Rightarrow> Inl e
      | Inr _ \<Rightarrow> Inr (getProperty (privProperties this) SpeechServiceConnection_EndpointId
                       (Some ''00000000-0000-0000-0000-000000000000'')))"

definition set_endpointId :: "string option \<Rightarrow> SpeechRecognizer \<Rightarrow> error + SpeechRecognizer" where
  "set_endpointId v this =
     (case throwIfDisposed (disposedSpeechRecognizer this) of
        Inl e \<Rightarrow> Inl e
      | Inr _ \<Rightarrow>
          (case throwIfNullOrWhitespace v ''value'' of
             Inl e \<Rightarrow> Inl e
           | Inr _ \<Rightarrow> Inr (this\<lparr>privProperties :=
                             setProperty (privProperties this) SpeechServiceConnection_EndpointId v\<rparr>)))"

definition set_authorizationToken :: "string option \<Rightarrow> SpeechRecognizer \<Rightarrow> error + SpeechRecognizer" where
  "set_authorizationToken token this =
     (case throwIfNullOrWhitespace token ''token'' of
        Inl e \<Rightarrow> Inl e
      | Inr _ \<Rightarrow> Inr (this\<lparr>privProperties :=
                        setProperty (privProperties this) SpeechServiceAuthorization_Token token\<rparr>))"

definition get_authorizationToken :: "SpeechRecognizer \<Rightarrow> error + string option" where
  "get_authorizationToken this =
     Inr (getProperty (privProperties this) SpeechServiceAuthorization_Token None)"

definition get_speechRecognitionLanguage :: "SpeechRecognizer \<Rightarrow> error + string option" where
  "get_speechRecognitionLanguage this =
     (case throwIfDisposed (disposedSpeechRecognizer this) of
        Inl e \<Rightarrow> Inl e
      | Inr _ \<Rightarrow> Inr (getProperty (privProperties this) SpeechServiceConnection_RecoLanguage None))"

definition get_outputFormat :: "SpeechRecognizer \<Rightarrow> error + OutputFormat" where
  "get_outputFormat this =
     (case throwIfDisposed (disposedSpeechRecognizer this) of
        Inl e \<Rightarrow> Inl e
      | Inr _ \<Rightarrow>
          (if getProperty (privProperties this) OutputFormatPropertyName (Some ''Simple'') = Some ''Simple''
           then Inr Simple else Inr Detailed))"


subsection \<open>implDispatchMessageHandler\<close>

text \<open>
  A subscriber call, \<open>if (!!h) { try { h(this, a); } catch (error) { } }\<close>: the
  \<open>catch\<close> block is empty.
\<close>

definition notifySubscriber :: "('a \<Rightarrow> Invocation) \<Rightarrow> 'a handler option \<Rightarrow> 'a \<Rightarrow> unit comp" where
  "notifySubscriber tag h a =
     (case h of
        None \<Rightarrow> ret ()
      | Some f \<Rightarrow> try_catch (invoke tag f a) (\<lambda>error. ret ()))"

text \<open>\<open>try { cb(x); } catch (e) { if (!!err) { err(e); } }\<close>, for a \<open>cb\<close> known to be set.\<close>

definition callForwarding :: "('a \<Rightarrow> Invocation) \<Rightarrow> 'a handler \<Rightarrow> error handler option \<Rightarrow> 'a \<Rightarrow> unit comp" where
  "callForwarding tag f err x =
     try_catch (invoke tag f x)
       (\<lambda>e. case err of None \<Rightarrow> ret () | Some g \<Rightarrow> invoke ErrCall g e)"

text \<open>The result built by the \<open>RecognitionEndedEvent\<close> branch.\<close>

definition endedResult :: "string \<Rightarrow> SpeechRecognitionResult" where
  "endedResult errorText =
     SpeechRecognitionResult_new\<lparr>reason := Some Canceled, errorDetails := Some errorText\<rparr>"

text \<open>The result built by the \<open>SpeechSimplePhraseEvent\<close> branch, assignments in source order.\<close>

definition simplePhraseResult :: "('rs, 'cs) Externals \<Rightarrow> 'rs ISimpleSpeechPhrase \<Rightarrow> SpeechRecognitionResult" where
  "simplePhraseResult ext p =
     SpeechRecognitionResult_new
       \<lparr>reason := Some (implTranslateRecognitionResult ext (simple_RecognitionStatus p)),
        duration := Some (simple_Duration p),
        offset := Some (simple_Duration p),
        resultText := Some (simple_DisplayText p),
        json := Some (JSON_stringify ext (SimplePayload p))\<rparr>"

text \<open>
  The result built by the \<open>SpeechDetailedPhraseEvent\<close> branch. \<open>NBest[0].Display\<close> on an
  empty array reads a property of \<open>undefined\<close>, which throws a \<open>TypeError\<close>.
\<close>

definition detailedPhraseResult :: "('rs, 'cs) Externals \<Rightarrow> 'rs IDetailedSpeechPhrase \<Rightarrow> SpeechRecognitionResult comp" where
  "detailedPhraseResult ext p =
     (let reason' = implTranslateRecognitionResult ext (detailed_RecognitionStatus p);
          result' = SpeechRecognitionResult_new
            \<lparr>json := Some (JSON_stringify ext (DetailedPayload p)),
             offset := Some (detailed_Offset p),
             duration := Some (detailed_Duration p),
             reason := Some reason'\<rparr>
      in if reason' = RecognizedSpeech
         then (case NBest p of
                 [] \<Rightarrow> ([], Inl TypeError)
               | best # _ \<Rightarrow> ret (result'\<lparr>resultText := Some (Display best)\<rparr>))
         else ret result')"

text \<open>The event args built by the \<open>SpeechHypothesisEvent\<close> branch.\<close>

definition hypothesisEventArgs :: "('rs, 'cs) Externals \<Rightarrow> string \<Rightarrow> ISpeechHypothesis \<Rightarrow> SpeechRecognitionEventArgs" where
  "hypothesisEventArgs ext sid p =
     SpeechRecognitionEventArgs_new
       \<lparr>sessionId := Some sid,
        result := Some (SpeechRecognitionResult_new
          \<lparr>json := Some (JSON_stringify ext (HypothesisPayload p)),
           offset := Some (hyp_Offset p),
           duration := Some (hyp_Duration p),
           resultText := Some (hyp_Text p)\<rparr>)\<rparr>"

text \<open>
  The canceled-or-recognized dispatch shared, statement for statement, by the simple
  and the detailed branch.
\<close>

definition dispatchPhrase ::
  "('rs, 'cs) Externals \<Rightarrow> SpeechRecognizer \<Rightarrow> string \<Rightarrow> 'rs \<Rightarrow> SpeechRecognitionResult \<Rightarrow> unit comp" where
  "dispatchPhrase ext this sid status result' =
     (if implTranslateRecognitionResult ext status = Canceled
      then notifySubscriber CanceledCall (canceled this)
             (SpeechRecognitionCanceledEventArgs_new
                \<lparr>cancelSessionId := Some sid,
                 cancelReason := Some (implTranslateCancelResult ext status)\<rparr>)
      else notifySubscriber RecognizedCall (recognized this)
             (SpeechRecognitionEventArgs_new\<lparr>sessionId := Some sid, result := Some result'\<rparr>))"

text \<open>
  \<open>implDispatchMessageHandler(event, cb, err)\<close>. The value of the computation is the pair
  of the parameters \<open>cb\<close> and \<open>err\<close> as they stand when the function returns: only the
  simple-phrase branch assigns \<open>undefined\<close> to them, and only after a call of \<open>cb\<close>.
\<close>

fun implDispatchMessageHandler ::
  "('rs, 'cs) Externals \<Rightarrow> SpeechRecognizer \<Rightarrow> ('rs, 'cs) SpeechRecognitionEvent \<Rightarrow>
   SpeechRecognitionResult handler option \<Rightarrow> error handler option \<Rightarrow>
   (SpeechRecognitionResult handler option \<times> error handler option) comp" where
  "implDispatchMessageHandler ext this (RecognitionEndedEvent status sid errorOfEvent) cb err =
     (if status \<noteq> completionSuccess ext
      then (let errorText = completionStatusName ext status @ '': '' @ errorOfEvent;
                errorEvent = SpeechRecognitionCanceledEventArgs_new
                  \<lparr>cancelReason := Some Error,
                   cancelSessionId := Some sid,
                   cancelErrorDetails := Some errorText\<rparr>
            in seq (notifySubscriber CanceledCall (canceled this) errorEvent)
              (seq (case cb of
                      None \<Rightarrow> ret ()
                    | Some f \<Rightarrow> callForwarding CbCall f err (endedResult errorText))
                 (ret (cb, err))))
      else ret (cb, err))"
| "implDispatchMessageHandler ext this (SpeechSimplePhraseEvent sid p) cb err =
     (let result' = simplePhraseResult ext p
      in seq (dispatchPhrase ext this sid (simple_RecognitionStatus p) result')
           (case cb of
              None \<Rightarrow> ret (cb, err)
            | Some f \<Rightarrow> seq (callForwarding CbCall f err result') (ret (None, None))))"
| "implDispatchMessageHandler ext this (SpeechDetailedPhraseEvent sid p) cb err =
     bind_comp (detailedPhraseResult ext p)
       (\<lambda>result'.
          seq (dispatchPhrase ext this sid (detailed_RecognitionStatus p) result')
            (seq (notifySubscriber CbCall cb result') (ret (cb, err))))"
| "implDispatchMessageHandler ext this (SpeechHypothesisEvent sid p) cb err =
     seq (notifySubscriber RecognizingCall (recognizing this) (hypothesisEventArgs ext sid p))
       (ret (cb, err))"
| "implDispatchMessageHandler ext this (OtherEvent name) cb err = ret (cb, err)"

subsection \<open>Session operations\<close>

text \<open>
  The sink closures. Each tests \<open>this.disposedSpeechRecognizer || !this.reco\<close> on the
  recognizer as it is when the event arrives, then calls the handler with the captured
  \<open>cb\<close> and \<open>err\<close> (one-shot) or with \<open>undefined, undefined\<close> (continuous). What the
  handler assigned to its own parameters is dropped when it returns.
\<close>

fun eventSink ::
  "('rs, 'cs) Externals \<Rightarrow> SpeechRecognizer \<Rightarrow> Sink \<Rightarrow> ('rs, 'cs) SpeechRecognitionEvent \<Rightarrow> unit comp" where
  "eventSink ext this (OnceSink cb err) event =
     (if disposedSpeechRecognizer this \<or> reco this = None then ret ()
      else bind_comp (implDispatchMessageHandler ext this event cb err) (\<lambda>_. ret ()))"
| "eventSink ext this ContinuousSink event =
     (if disposedSpeechRecognizer this \<or> reco this = None then ret ()
      else bind_comp (implDispatchMessageHandler ext this event None None) (\<lambda>_. ret ()))"

text \<open>\<open>implCloseExistingRecognizer\<close>: the recognizer after the call and the calls made.\<close>

definition implCloseExistingRecognizer :: "SpeechRecognizer \<Rightarrow> SpeechRecognizer \<times> Invocation list" where
  "implCloseExistingRecognizer this =
     (case reco this of
        None \<Rightarrow> (this, [])
      | Some h \<Rightarrow> (this\<lparr>reco := None\<rparr>, [TurnOff h, Dispose h]))"

text \<open>
  \<open>this.reco = this.implRecognizerSetup(mode, ...); this.implRecognizerStart(this.reco, sink)\<close>
  after \<open>implCloseExistingRecognizer\<close>. When the setup throws, \<open>reco\<close> stays \<open>undefined\<close>.
\<close>

definition startSession ::
  "('rs, 'cs) Externals \<Rightarrow> RecognitionMode \<Rightarrow> Sink \<Rightarrow> SpeechRecognizer \<Rightarrow> SpeechRecognizer \<times> unit comp" where
  "startSession ext mode snk this =
     (let closed = implCloseExistingRecognizer this; this1 = fst closed
      in case implRecognizerSetup_throws ext mode (privProperties this1) of
           Some e \<Rightarrow> (this1, (snd closed, Inl e))
         | None \<Rightarrow>
             (let h = sessionsCreated this1
              in (this1\<lparr>reco := Some h,
                        sessionsCreated := Suc h,
                        registeredSinks := (registeredSinks this1)(h \<mapsto> snk)\<rparr>,
                  (snd closed @ [Setup mode h, Start h], Inr ()))))"

text \<open>\<open>if (!!cb) { try { cb(); } catch (e) { if (!!err) { err(e); } } }\<close>\<close>

definition reportDone :: "unit handler option \<Rightarrow> error handler option \<Rightarrow> unit comp" where
  "reportDone cb err =
     (case cb of
        None \<Rightarrow> ret ()
      | Some f \<Rightarrow> callForwarding (\<lambda>_. NotifyCall) f err ())"

definition recognizeOnceAsync ::
  "('rs, 'cs) Externals \<Rightarrow> SpeechRecognitionResult handler option \<Rightarrow> error handler option \<Rightarrow>
   SpeechRecognizer \<Rightarrow> SpeechRecognizer \<times> unit comp" where
  "recognizeOnceAsync ext cb err this =
     (if disposedSpeechRecognizer this then (this, ([], Inl ObjectDisposed))
      else startSession ext Interactive (OnceSink cb err) this)"

definition startContinuousRecognitionAsync ::
  "('rs, 'cs) Externals \<Rightarrow> unit handler option \<Rightarrow> error handler option \<Rightarrow>
   SpeechRecognizer \<Rightarrow> SpeechRecognizer \<times> unit comp" where
  "startContinuousRecognitionAsync ext cb err this =
     (if disposedSpeechRecognizer this then (this, ([], Inl ObjectDisposed))
      else (let started = startSession ext Conversation ContinuousSink this
            in (fst started, seq (snd started) (reportDone cb err))))"

definition stopContinuousRecognitionAsync ::
  "unit handler option \<Rightarrow> error handler option \<Rightarrow> SpeechRecognizer \<Rightarrow> SpeechRecognizer \<times> unit comp" where
  "stopContinuousRecognitionAsync cb err this =
     (if disposedSpeechRecognizer this then (this, ([], Inl ObjectDisposed))
      else (let closed = implCloseExistingRecognizer this
            in (fst closed, seq (snd closed, Inr ()) (reportDone cb err))))"

text \<open>
  \<open>dispose(disposing)\<close>: nothing when already disposed; when \<open>disposing\<close>, the session is
  closed and the flag is set (\<open>super.dispose\<close> is not under src/ and touches no field
  of this class).
\<close>

definition dispose :: "bool \<Rightarrow> SpeechRecognizer \<Rightarrow> SpeechRecognizer \<times> Invocation list" where
  "dispose disposing this =
     (if disposedSpeechRecognizer this then (this, [])
      else if disposing
        then (let closed = implCloseExistingRecognizer this
              in ((fst closed)\<lparr>disposedSpeechRecognizer := True\<rparr>, snd closed))
        else (this, []))"

definition close :: "SpeechRecognizer \<Rightarrow> SpeechRecognizer \<times> unit comp" where
  "close this =
     (if disposedSpeechRecognizer this then (this, ([], Inl ObjectDisposed))
      else (let disposed = dispose True this in (fst disposed, (snd disposed, Inr ()))))"

subsection \<open>Sequences of calls\<close>

text \<open>
  What can happen to a recognizer: the caller invokes one of the four operations, or
  the engine invokes the sink that was registered for session \<open>h\<close>, whether or not that
  session is still the current one.
\<close>

datatype ('rs, 'cs) Call =
    RecognizeOnce "SpeechRecognitionResult handler option" "error handler option"
  | StartContinuous "unit handler option" "error handler option"
  | StopContinuous "unit handler option" "error handler option"
  | Close
  | Deliver nat "('rs, 'cs) SpeechRecognitionEvent"

fun step :: "('rs, 'cs) Externals \<Rightarrow> ('rs, 'cs) Call \<Rightarrow> SpeechRecognizer \<Rightarrow> SpeechRecognizer \<times> unit comp" where
  "step ext (RecognizeOnce cb err) this = recognizeOnceAsync ext cb err this"
| "step ext (StartContinuous cb err) this = startContinuousRecognitionAsync ext cb err this"
| "step ext (StopContinuous cb err) this = stopContinuousRecognitionAsync cb err this"
| "step ext Close this = close this"
| "step ext (Deliver h event) this =
     (case registeredSinks this h of
        None \<Rightarrow> (this, ret ())
      | Some snk \<Rightarrow> (this, eventSink ext this snk event))"

text \<open>The calls made by a sequence of steps, one list per step.\<close>

fun run :: "('rs, 'cs) Externals \<Rightarrow> ('rs, 'cs) Call list \<Rightarrow> SpeechRecognizer \<Rightarrow> Invocation list list" where
  "run ext [] this = []"
| "run ext (c # cs) this = fst (snd (step ext c this)) # run ext cs (fst (step ext c this))"


subsection \<open>Observations on traces\<close>

text \<open>The result that a call hands to user code, if it hands one.\<close>

fun deliveredResult :: "Invocation \<Rightarrow> SpeechRecognitionResult option" where
  "deliveredResult (RecognizedCall a) = result a"
| "deliveredResult (RecognizingCall a) = result a"
| "deliveredResult (CbCall r) = Some r"
| "deliveredResult other = None"

text \<open>Is the call one of the one-shot pair, \<open>cb\<close> or \<open>err\<close>?\<close>

fun isCompletion :: "Invocation \<Rightarrow> bool" where
  "isCompletion (CbCall r) = True"
| "isCompletion (ErrCall e) = True"
| "isCompletion other = False"

text \<open>Is the call one to a subscriber or to the one-shot pair?\<close>

fun isUserCall :: "Invocation \<Rightarrow> bool" where
  "isUserCall (CanceledCall a) = True"
| "isUserCall (RecognizedCall a) = True"
| "isUserCall (RecognizingCall a) = True"
| "isUserCall (CbCall r) = True"
| "isUserCall (ErrCall e) = True"
| "isUserCall other = False"



text \<open>The recognizer with the behaviour of every subscriber that is set replaced.\<close>

definition replaceSubscribers ::
  "SpeechRecognitionEventArgs handler \<Rightarrow> SpeechRecognitionEventArgs handler \<Rightarrow>
   SpeechRecognitionCanceledEventArgs handler \<Rightarrow> SpeechRecognizer \<Rightarrow> SpeechRecognizer" where
  "replaceSubscribers f g h this =
     this\<lparr>recognizing := map_option (\<lambda>_. f) (recognizing this),
          recognized := map_option (\<lambda>_. g) (recognized this),
          canceled := map_option (\<lambda>_. h) (canceled this)\<rparr>"

subsection \<open>A concrete setting for evaluation\<close>

text \<open>
  Modelled from the spec: an instance of the collaborators, with status codes written
  as their names. The translation follows the spec's Status Translator: success gives
  \<open>RecognizedSpeech\<close>, the no-speech codes give \<open>NoMatch\<close>, every other code, known or
  not, gives \<open>Canceled\<close> with reason \<open>Error\<close>. The serialiser is a stand-in that writes
  the kind of the payload only; the setup never throws.
\<close>

definition exampleExternals :: "(string, string) Externals" where
  "exampleExternals =
     \<lparr> implTranslateRecognitionResult =
         (\<lambda>s. if s = ''Success'' then RecognizedSpeech
              else if s = ''NoMatch'' \<or> s = ''InitialSilenceTimeout'' then NoMatch
              else Canceled),
       implTranslateCancelResult = (\<lambda>s. if s = ''EndOfStream'' then EndOfStream else Error),
       completionSuccess = ''Success'',
       completionStatusName = (\<lambda>s. s),
       JSON_stringify =
         (\<lambda>p. case p of SimplePayload _ \<Rightarrow> ''{simple}''
                      | DetailedPayload _ \<Rightarrow> ''{detailed}''
                      | HypothesisPayload _ \<Rightarrow> ''{hypothesis}''),
       implRecognizerSetup_throws = (\<lambda>_ _. None) \<rparr>"

text \<open>
  A freshly constructed recognizer for \<open>en-US\<close> holding an authorization token, with all
  three subscribers set to handlers that always throw.
\<close>

definition exampleRecognizer :: SpeechRecognizer where
  "exampleRecognizer =
     \<lparr> disposedSpeechRecognizer = False,
       privProperties = [SpeechServiceConnection_RecoLanguage \<mapsto> ''en-US'',
                         SpeechServiceAuthorization_Token \<mapsto> ''token-1''],
       recognizing = Some (\<lambda>_. Some (Thrown ''recognizing failed'')),
       recognized = Some (\<lambda>_. Some (Thrown ''recognized failed'')),
       canceled = Some (\<lambda>_. Some (Thrown ''canceled failed'')),
       reco = None,
       sessionsCreated = 0,
       registeredSinks = Map.empty \<rparr>"

definition helloPhrase :: "string ISimpleSpeechPhrase" where
  "helloPhrase =
     \<lparr> simple_RecognitionStatus = ''Success'', simple_DisplayText = ''hello world'',
       simple_Offset = 100, simple_Duration = 700 \<rparr>"

definition helloDetailed :: "string IDetailedSpeechPhrase" where
  "helloDetailed =
     \<lparr> detailed_RecognitionStatus = ''Success'',
       NBest = [\<lparr>Display = ''Hello world.''\<rparr>, \<lparr>Display = ''Hollow world.''\<rparr>],
       detailed_Offset = 100, detailed_Duration = 700 \<rparr>"

text \<open>A detailed phrase for silence: status \<open>NoMatch\<close> and no alternatives.\<close>

definition silenceDetailed :: "string IDetailedSpeechPhrase" where
  "silenceDetailed =
     \<lparr> detailed_RecognitionStatus = ''NoMatch'', NBest = [],
       detailed_Offset = 1200, detailed_Duration = 0 \<rparr>"

definition helHypothesis :: ISpeechHypothesis where
  "helHypothesis = \<lparr> hyp_Text = ''hel'', hyp_Offset = 100, hyp_Duration = 300 \<rparr>"


section \<open>Theorems\<close>

subsection \<open>What the building blocks compute\<close>

lemma notifySubscriber_eq:
  "notifySubscriber tag h a = ((case h of None \<Rightarrow> [] | Some f \<Rightarrow> [tag a]), Inr ())"
  by (simp add: notifySubscriber_def try_catch_def invoke_def ret_def split: option.splits)

lemma callForwarding_eq:
  "callForwarding tag f err x =
     (case f x of
        None \<Rightarrow> ([tag x], Inr ())
      | Some e \<Rightarrow>
          (case err of
             None \<Rightarrow> ([tag x], Inr ())
           | Some g \<Rightarrow> ([tag x, ErrCall e], case g e of None \<Rightarrow> Inr () | Some e' \<Rightarrow> Inl e')))"
  by (simp add: callForwarding_def try_catch_def invoke_def ret_def split: option.splits)

lemma seq_Inr: "seq (t, Inr u) n = (t @ fst n, snd n)"
  by (simp add: seq_def bind_comp_def)

lemma seq_Inl: "seq (t, Inl e) n = (t, Inl e)"
  by (simp add: seq_def bind_comp_def)

lemma bind_Inr: "bind_comp (t, Inr v) k = (t @ fst (k v), snd (k v))"
  by (simp add: bind_comp_def)

lemma bind_Inl: "bind_comp (t, Inl e) k = (t, Inl e)"
  by (simp add: bind_comp_def)

lemmas comp_simps = notifySubscriber_eq callForwarding_eq seq_Inr seq_Inl bind_Inr bind_Inl ret_def Let_def

lemmas example_defs = exampleExternals_def exampleRecognizer_def helloPhrase_def helloDetailed_def
  silenceDetailed_def helHypothesis_def

lemmas op_defs = recognizeOnceAsync_def startContinuousRecognitionAsync_def
  stopContinuousRecognitionAsync_def close_def dispose_def startSession_def
  implCloseExistingRecognizer_def reportDone_def

lemmas result_defs = simplePhraseResult_def detailedPhraseResult_def endedResult_def
  hypothesisEventArgs_def dispatchPhrase_def SpeechRecognitionResult_new_def
  SpeechRecognitionEventArgs_new_def SpeechRecognitionCanceledEventArgs_new_def

text \<open>The example recognizer is what the constructor returns, with the subscribers assigned.\<close>

lemma exampleRecognizer_constructed:
  "map_sum id
     (\<lambda>this. this\<lparr>recognizing := Some (\<lambda>_. Some (Thrown ''recognizing failed'')),
                  recognized := Some (\<lambda>_. Some (Thrown ''recognized failed'')),
                  canceled := Some (\<lambda>_. Some (Thrown ''canceled failed''))\<rparr>)
     (SpeechRecognizer_new
        (Some [SpeechServiceConnection_RecoLanguage \<mapsto> ''en-US'',
               SpeechServiceAuthorization_Token \<mapsto> ''token-1'']))
   = Inr exampleRecognizer"
  by (simp add: SpeechRecognizer_new_def throwIfNullOrWhitespace_def isBlank_def getProperty_def
      exampleRecognizer_def)

subsection \<open>AudioStreamFormat\<close>

text \<open>
  C10: for every call of \<open>getWaveFormatPCM samplesPerSecond bitsPerSample channels\<close> the
  returned format has \<open>formatTag = 1\<close>,
  \<open>avgBytesPerSec = samplesPerSecond * channels * bitsPerSample\<close> and
  \<open>blockAlign = channels * Math.max(bitsPerSample, 8)\<close>, the products and the maximum
  being those of the platform's numbers; \<open>getDefaultInputFormat\<close> returns the format with
  \<open>samplesPerSec = 16000\<close>, \<open>bitsPerSample = 16\<close> and \<open>channels = 1\<close>, which is the format
  that \<open>getWaveFormatPCM\<close> returns for these three numbers.
\<close>

theorem getWaveFormatPCM_fields:
  "formatTag (getWaveFormatPCM ops sps bps ch) = number_literal ops 1
   \<and> avgBytesPerSec (getWaveFormatPCM ops sps bps ch)
       = number_times ops (number_times ops sps ch) bps
   \<and> blockAlign (getWaveFormatPCM ops sps bps ch)
       = number_times ops ch (Math_max ops bps (number_literal ops 8))
   \<and> samplesPerSec (getWaveFormatPCM ops sps bps ch) = sps
   \<and> bitsPerSample (getWaveFormatPCM ops sps bps ch) = bps
   \<and> channels (getWaveFormatPCM ops sps bps ch) = ch
   \<and> samplesPerSec (getDefaultInputFormat ops) = number_literal ops 16000
   \<and> bitsPerSample (getDefaultInputFormat ops) = number_literal ops 16
   \<and> channels (getDefaultInputFormat ops) = number_literal ops 1
   \<and> getDefaultInputFormat ops
       = getWaveFormatPCM ops (number_literal ops 16000) (number_literal ops 16)
           (number_literal ops 1)"
  by (simp add: getWaveFormatPCM_def getDefaultInputFormat_def AudioStreamFormatImpl_new_def)

text \<open>
  On doubles that are integers: a value below \<open>2 ^ 53\<close> is a double, so products that
  stay below \<open>2 ^ 53\<close> are the exact products; above, the product is rounded. The
  default format has 256000 and 16 in its two computed fields.
\<close>

lemma roundToDouble_exact:
  assumes "\<bar>x\<bar> < 2 ^ 53"
  shows "roundToDouble x = x"
proof -
  have e: "excessBits \<bar>x\<bar> = 0"
    using assms by (subst excessBits.simps) simp
  have "sgn x * \<bar>x\<bar> = x"
    by (simp add: mult.commute abs_sgn)
  then show ?thesis
    by (simp add: roundToDouble_def e Let_def)
qed

lemma getWaveFormatPCM_exact_below_2_53:
  assumes "\<bar>sps * ch\<bar> < 2 ^ 53" and "\<bar>sps * ch * bps\<bar> < 2 ^ 53" and "\<bar>ch * max bps 8\<bar> < 2 ^ 53"
  shows "avgBytesPerSec (getWaveFormatPCM doubleOps sps bps ch) = sps * ch * bps
       \<and> blockAlign (getWaveFormatPCM doubleOps sps bps ch) = ch * max bps 8"
  using assms
  by (simp add: getWaveFormatPCM_def AudioStreamFormatImpl_new_def doubleOps_def roundToDouble_exact)

lemma getWaveFormatPCM_rounds_above_2_53:
  "avgBytesPerSec (getWaveFormatPCM doubleOps 94906267 1 94906267) = 9007199515875288
   \<and> (94906267 :: int) * 94906267 * 1 = 9007199515875289"
  by code_simp

lemma getDefaultInputFormat_doubleOps:
  "getDefaultInputFormat doubleOps =
     \<lparr> formatTag = 1, channels = 1, samplesPerSec = 16000, bitsPerSample = 16,
       avgBytesPerSec = 256000, blockAlign = 16 \<rparr>"
  by code_simp

subsection \<open>The guard of the event sinks\<close>

text \<open>
  C9: for every raw event delivered to a registered event sink, if the recognizer has
  been disposed or holds no session handle, the sink returns at once: it makes no call
  to a subscriber or to a one-shot callback (the trace is empty, so no result was
  handed to anyone) and it returns normally.
\<close>

theorem eventSink_guard:
  "disposedSpeechRecognizer this \<or> reco this = None \<Longrightarrow> eventSink ext this snk event = ([], Inr ())"
  by (cases snk) (auto simp: ret_def)

theorem eventSink_guard_witness:
  "(disposedSpeechRecognizer (fst (close exampleRecognizer)) \<or> reco (fst (close exampleRecognizer)) = None)
   \<and> eventSink exampleExternals (fst (close exampleRecognizer)) (OnceSink (Some (\<lambda>_. None)) None)
        (SpeechSimplePhraseEvent ''s1'' helloPhrase) = ([], Inr ())"
  using eventSink_guard [of "fst (close exampleRecognizer)" exampleExternals
      "OnceSink (Some (\<lambda>_. None)) None" "SpeechSimplePhraseEvent ''s1'' helloPhrase"]
  by (simp add: op_defs example_defs)

subsection \<open>The one-shot callback over a sequence of events\<close>

text \<open>
  C1 asks that the \<open>cb\<close>/\<open>err\<close> pair of a \<open>recognizeOnceAsync\<close> call is invoked at most
  once over all the events of the session. The code does not do that: the handler
  assigns \<open>undefined\<close> to its own parameters, the sink closure keeps the captured \<open>cb\<close>
  and passes it again with the next event. Evaluated on one \<open>recognizeOnceAsync\<close>
  whose session emits a recognized simple phrase, a second simple phrase and then a
  session end with status \<open>ConnectError\<close>, \<open>cb\<close> is called three times.
\<close>

theorem recognizeOnce_callback_called_again:
  "map (filter isCompletion)
     (run exampleExternals
        [RecognizeOnce (Some (\<lambda>_. None)) (Some (\<lambda>_. None)),
         Deliver 0 (SpeechSimplePhraseEvent ''s1'' helloPhrase),
         Deliver 0 (SpeechSimplePhraseEvent ''s1'' helloPhrase),
         Deliver 0 (RecognitionEndedEvent ''ConnectError'' ''s1'' ''no route'')]
        exampleRecognizer)
   = [[], [CbCall (simplePhraseResult exampleExternals helloPhrase)],
          [CbCall (simplePhraseResult exampleExternals helloPhrase)],
          [CbCall (endedResult ''ConnectError: no route'')]]"
  by (simp add: op_defs example_defs comp_simps result_defs)

subsection \<open>Events of a superseded session\<close>

lemma deliver_silent:
  "disposedSpeechRecognizer this \<or> reco this = None \<Longrightarrow>
   concat (run ext (map (\<lambda>(h, event). Deliver h event) deliveries) this) = []"
proof (induction deliveries)
  case Nil
  then show ?case by simp
next
  case (Cons d ds)
  obtain h event where d: "d = (h, event)" by (cases d)
  have "fst (snd (step ext (Deliver h event) this)) = []"
  proof (cases "registeredSinks this h")
    case None
    then show ?thesis by (simp add: ret_def)
  next
    case (Some snk)
    with Cons.prems show ?thesis by (cases snk) (auto simp: ret_def)
  qed
  moreover have "fst (step ext (Deliver h event) this) = this"
    by (simp split: option.splits)
  ultimately show ?case using Cons d by simp
qed

lemma stop_leaves_no_session:
  "disposedSpeechRecognizer (fst (stopContinuousRecognitionAsync cb err this))
   \<or> reco (fst (stopContinuousRecognitionAsync cb err this)) = None"
  by (simp add: stopContinuousRecognitionAsync_def implCloseExistingRecognizer_def Let_def
      split: option.splits)

lemma close_leaves_disposed:
  "disposedSpeechRecognizer (fst (close this))"
  by (simp add: close_def dispose_def Let_def)

text \<open>
  After \<open>stopContinuousRecognitionAsync\<close> or \<open>close\<close>, and for as long as no new session
  is started, the guard of the sinks holds: no event delivered to any sink registered
  earlier makes a call to a subscriber or to a one-shot callback.
\<close>

lemma stale_events_dropped_after_stop_or_close:
  "concat (run ext (map (\<lambda>(h, event). Deliver h event) deliveries)
             (fst (stopContinuousRecognitionAsync cb err this))) = []
   \<and> concat (run ext (map (\<lambda>(h, event). Deliver h event) deliveries) (fst (close this))) = []"
  using deliver_silent [OF stop_leaves_no_session] deliver_silent [OF disjI1, OF close_leaves_disposed]
  by blast

text \<open>
  C2 asks that after \<open>startContinuousRecognitionAsync\<close> or \<open>recognizeOnceAsync\<close> on a
  recognizer with an active session, as after stop or close, no event of the superseded
  session reaches a subscriber or a pending one-shot callback, even when the stale
  sink is invoked later. The guard \<open>this.disposedSpeechRecognizer || !this.reco\<close> drops
  such events after stop and close, and misses the replaced session: \<open>reco\<close> then holds
  the new session, so the old sink passes the guard. After a second
  \<open>startContinuousRecognitionAsync\<close> has torn down session 0 and started session 1, a
  hypothesis arriving at the sink of session 0 reaches the \<open>recognizing\<close> subscriber;
  after a second \<open>recognizeOnceAsync\<close> (without callbacks), a phrase arriving at the sink
  of session 0 reaches \<open>recognized\<close> and the callback of the first call.
\<close>

theorem stale_sink_reaches_subscriber:
  "run exampleExternals
     [StartContinuous None None, StartContinuous None None,
      Deliver 0 (SpeechHypothesisEvent ''s0'' helHypothesis)]
     exampleRecognizer
   = [[Setup Conversation 0, Start 0],
      [TurnOff 0, Dispose 0, Setup Conversation 1, Start 1],
      [RecognizingCall (hypothesisEventArgs exampleExternals ''s0'' helHypothesis)]]
   \<and> run exampleExternals
     [RecognizeOnce (Some (\<lambda>_. None)) None, RecognizeOnce None None,
      Deliver 0 (SpeechSimplePhraseEvent ''s0'' helloPhrase)]
     exampleRecognizer
   = [[Setup Interactive 0, Start 0],
      [TurnOff 0, Dispose 0, Setup Interactive 1, Start 1],
      [RecognizedCall \<lparr>sessionId = Some ''s0'',
                       result = Some (simplePhraseResult exampleExternals helloPhrase)\<rparr>,
       CbCall (simplePhraseResult exampleExternals helloPhrase)]]"
  by (simp add: op_defs example_defs comp_simps result_defs)

subsection \<open>Reasons carried by what is delivered\<close>




subsection \<open>RecognitionEndedEvent\<close>

text \<open>
  What the branch does: nothing on \<open>Success\<close>; otherwise the canceled event args with
  reason \<open>Error\<close>, the session id and the text \<open>status: error\<close> go to the \<open>canceled\<close>
  subscriber if set, and a \<open>Canceled\<close> result with the same text goes to \<open>cb\<close> if set
  (an exception of \<open>cb\<close> is forwarded to \<open>err\<close> if set).
\<close>

lemma sessionEnded_dispatch:
  "fst (implDispatchMessageHandler ext this (RecognitionEndedEvent status sid errorOfEvent) cb err) =
     (if status = completionSuccess ext then []
      else
        (case canceled this of
           None \<Rightarrow> []
         | Some h \<Rightarrow>
             [CanceledCall
                \<lparr>cancelSessionId = Some sid, cancelReason = Some Error,
                 cancelErrorDetails = Some (completionStatusName ext status @ '': '' @ errorOfEvent)\<rparr>])
        @ (case cb of
             None \<Rightarrow> []
           | Some f \<Rightarrow>
               CbCall (endedResult (completionStatusName ext status @ '': '' @ errorOfEvent))
               # (case f (endedResult (completionStatusName ext status @ '': '' @ errorOfEvent)) of
                    None \<Rightarrow> []
                  | Some e \<Rightarrow> (case err of None \<Rightarrow> [] | Some g \<Rightarrow> [ErrCall e]))))"
  by (simp add: comp_simps SpeechRecognitionCanceledEventArgs_new_def split: option.splits)

text \<open>
  C4 asks, beyond the above, that the pending one-shot callback is cleared after it
  received the \<open>Canceled\<close> result of a non-success \<open>RecognitionEndedEvent\<close>. The branch
  has no assignment to \<open>cb\<close>, and the sink closure keeps its captured \<open>cb\<close> in any case:
  the handler returns with its parameter \<open>cb\<close> still set, and a second such event of
  the same session calls \<open>cb\<close> a second time.
\<close>

theorem sessionEnded_callback_called_again:
  "map_sum id (\<lambda>(cb', err'). cb' = None)
     (snd (implDispatchMessageHandler exampleExternals exampleRecognizer
             (RecognitionEndedEvent ''ConnectError'' ''s1'' ''no route'') (Some (\<lambda>_. None)) None))
   = Inr False
   \<and> map (filter isCompletion)
     (run exampleExternals
        [RecognizeOnce (Some (\<lambda>_. None)) None,
         Deliver 0 (RecognitionEndedEvent ''ConnectError'' ''s1'' ''no route''),
         Deliver 0 (RecognitionEndedEvent ''ConnectError'' ''s1'' ''no route'')]
        exampleRecognizer)
   = [[], [CbCall (endedResult ''ConnectError: no route'')],
          [CbCall (endedResult ''ConnectError: no route'')]]"
  by (simp add: op_defs example_defs comp_simps result_defs)

subsection \<open>Property accessors on a disposed recognizer\<close>

lemma disposed_accessors_fail:
  "disposedSpeechRecognizer this \<Longrightarrow>
     get_endpointId this = Inl ObjectDisposed
     \<and> set_endpointId v this = Inl ObjectDisposed
     \<and> get_speechRecognitionLanguage this = Inl ObjectDisposed
     \<and> get_outputFormat this = Inl ObjectDisposed"
  by (simp add: get_endpointId_def set_endpointId_def get_speechRecognitionLanguage_def
      get_outputFormat_def throwIfDisposed_def)

lemma required_setters_reject_blank:
  "v = None \<or> (\<exists>s. v = Some s \<and> isBlank s) \<Longrightarrow>
     isl (set_endpointId v this) \<and> set_authorizationToken v this = Inl (NullOrWhitespace ''token'')"
  by (auto simp: set_endpointId_def set_authorizationToken_def throwIfDisposed_def
      throwIfNullOrWhitespace_def)

text \<open>
  C5 asks that every property accessor fails with the disposed classification after
  \<open>close()\<close>. The accessors of the endpoint id do, the two accessors of the
  authorization token have no \<open>throwIfDisposed\<close>: on a closed recognizer the getter
  returns the stored token and the setter stores a new one, while the endpoint-id
  getter fails.
\<close>

theorem authorizationToken_after_close:
  "get_authorizationToken (fst (close exampleRecognizer)) = Inr (Some ''token-1'')
   \<and> map_sum id (\<lambda>this. privProperties this SpeechServiceAuthorization_Token)
        (set_authorizationToken (Some ''token-2'') (fst (close exampleRecognizer)))
      = Inr (Some ''token-2'')
   \<and> get_endpointId (fst (close exampleRecognizer)) = Inl ObjectDisposed"
  by (simp add: op_defs example_defs get_authorizationToken_def set_authorizationToken_def
      get_endpointId_def throwIfDisposed_def
      throwIfNullOrWhitespace_def isBlank_def getProperty_def setProperty_def)

subsection \<open>Subscribers that throw\<close>

lemma notifySubscriber_map_option:
  "notifySubscriber tag (map_option (\<lambda>_. f) h) a = notifySubscriber tag h a"
  by (cases h) (simp_all add: notifySubscriber_eq)

lemma replaceSubscribers_fields:
  "recognizing (replaceSubscribers f g h this) = map_option (\<lambda>_. f) (recognizing this)"
  "recognized (replaceSubscribers f g h this) = map_option (\<lambda>_. g) (recognized this)"
  "canceled (replaceSubscribers f g h this) = map_option (\<lambda>_. h) (canceled this)"
  "disposedSpeechRecognizer (replaceSubscribers f g h this) = disposedSpeechRecognizer this"
  "reco (replaceSubscribers f g h this) = reco this"
  "registeredSinks (replaceSubscribers f g h this) = registeredSinks this"
  by (simp_all add: replaceSubscribers_def)

lemma dispatchPhrase_replaceSubscribers:
  "dispatchPhrase ext (replaceSubscribers f g h this) sid status r
   = dispatchPhrase ext this sid status r"
  by (simp add: dispatchPhrase_def replaceSubscribers_fields notifySubscriber_map_option)

lemma dispatch_replaceSubscribers:
  "implDispatchMessageHandler ext (replaceSubscribers f g h this) event cb err
   = implDispatchMessageHandler ext this event cb err"
  by (cases event)
     (simp_all add: dispatchPhrase_replaceSubscribers replaceSubscribers_fields
        notifySubscriber_map_option)

lemma eventSink_replaceSubscribers:
  "eventSink ext (replaceSubscribers f g h this) snk event = eventSink ext this snk event"
proof (cases snk)
  case (OnceSink cb err)
  then show ?thesis
    by (simp add: dispatch_replaceSubscribers replaceSubscribers_fields)
next
  case ContinuousSink
  then show ?thesis
    by (simp add: dispatch_replaceSubscribers replaceSubscribers_fields)
qed

lemma step_replaceSubscribers:
  "step ext c (replaceSubscribers f g h this)
   = (replaceSubscribers f g h (fst (step ext c this)), snd (step ext c this))"
proof (cases c)
  case (RecognizeOnce cb err)
  then show ?thesis
    by (simp add: replaceSubscribers_def op_defs Let_def split: option.splits)
next
  case (StartContinuous cb err)
  then show ?thesis
    by (simp add: replaceSubscribers_def op_defs Let_def split: option.splits)
next
  case (StopContinuous cb err)
  then show ?thesis
    by (simp add: replaceSubscribers_def op_defs Let_def split: option.splits)
next
  case Close
  then show ?thesis
    by (simp add: replaceSubscribers_def op_defs Let_def split: option.splits)
next
  case (Deliver n event)
  then show ?thesis
    by (simp add: eventSink_replaceSubscribers replaceSubscribers_fields split: option.splits)
qed

lemma run_replaceSubscribers:
  "run ext calls (replaceSubscribers f g h this) = run ext calls this"
proof (induction calls arbitrary: this)
  case Nil
  then show ?case by simp
next
  case (Cons c cs)
  then show ?case by (simp add: step_replaceSubscribers)
qed

text \<open>
  C6: for every raw event and every subscriber set, an exception raised inside a
  \<open>recognizing\<close>, \<open>recognized\<close> or \<open>canceled\<close> handler is caught and discarded where the
  handler is called. Whatever the three handlers do, return or throw, the handler of an
  event makes the same calls with the same arguments and ends the same way, so the
  dispatch actions after a throwing subscriber still run; and over any sequence of
  operations and delivered events every step makes the same calls, so later events
  are processed as if no subscriber had thrown.
\<close>

theorem subscriber_failures_discarded:
  "implDispatchMessageHandler ext (replaceSubscribers f g h this) event cb err
     = implDispatchMessageHandler ext this event cb err
   \<and> run ext calls (replaceSubscribers f g h this) = run ext calls this"
  by (simp add: dispatch_replaceSubscribers run_replaceSubscribers)

text \<open>
  With all three subscribers throwing, a simple phrase still reaches \<open>recognized\<close> and
  then the one-shot callback, and the handler returns normally.
\<close>

lemma throwing_subscribers_example:
  "implDispatchMessageHandler exampleExternals exampleRecognizer
     (SpeechSimplePhraseEvent ''s1'' helloPhrase) (Some (\<lambda>_. None)) None
   = ([RecognizedCall \<lparr>sessionId = Some ''s1'',
                       result = Some (simplePhraseResult exampleExternals helloPhrase)\<rparr>,
       CbCall (simplePhraseResult exampleExternals helloPhrase)],
      Inr (None, None))"
  by (simp add: example_defs comp_simps result_defs)

subsection \<open>Results built from phrase events\<close>



text \<open>A recognized phrase without alternatives: the handler throws before any call.\<close>

lemma detailedPhrase_without_alternatives:
  "implDispatchMessageHandler exampleExternals exampleRecognizer
     (SpeechDetailedPhraseEvent ''s1'' (helloDetailed\<lparr>NBest := []\<rparr>)) (Some (\<lambda>_. None)) None
   = ([], Inl TypeError)"
  by (simp add: example_defs comp_simps result_defs)

text \<open>
  C8: for every simple-phrase event, the offset of the result that the handler builds
  is the \<open>Duration\<close> of the payload, not its \<open>Offset\<close>; the duration of the result is that
  same \<open>Duration\<close>, its text is the payload's \<open>DisplayText\<close> and its json is the
  serialised payload. Every result that the handler of this event hands to user code
  is that result, and a one-shot callback that is set receives it. On the example
  phrase, whose \<open>Offset\<close> is 100 and whose \<open>Duration\<close> is 700, the result's offset is 700.
\<close>

theorem simplePhrase_result_fields:
  "offset (simplePhraseResult ext p) = Some (simple_Duration p)
   \<and> duration (simplePhraseResult ext p) = Some (simple_Duration p)
   \<and> resultText (simplePhraseResult ext p) = Some (simple_DisplayText p)
   \<and> json (simplePhraseResult ext p) = Some (JSON_stringify ext (SimplePayload p))
   \<and> list_all (\<lambda>i. deliveredResult i = None \<or> deliveredResult i = Some (simplePhraseResult ext p))
        (fst (implDispatchMessageHandler ext this (SpeechSimplePhraseEvent sid p) cb err))
   \<and> CbCall (simplePhraseResult ext p)
        \<in> set (fst (implDispatchMessageHandler ext this (SpeechSimplePhraseEvent sid p) (Some f) err))
   \<and> simple_Offset helloPhrase = 100
   \<and> offset (simplePhraseResult exampleExternals helloPhrase) = Some 700"
  by (simp add: comp_simps dispatchPhrase_def simplePhraseResult_def SpeechRecognitionResult_new_def
        SpeechRecognitionEventArgs_new_def SpeechRecognitionCanceledEventArgs_new_def
        helloPhrase_def
      split: option.splits)

end
